theory Spec2Isabelle
  imports Complex_Main "HOL-Library.Sublist"
begin

section \<open>Python values as handler.py sees them\<close>

text \<open>
  handler.py works on decoded JSON: every value is \<open>None\<close>, a bool, an int, a float, a
  string, a list or a dict with string keys. A dict is an association list (lookup takes
  the first binding of a key). Ints are unbounded. The floats are the doubles of the Python
  runtime, infinities and NaN included: their type \<open>'f\<close> and their arithmetic are outside
  the program and are a parameter of the model (\<open>float_ops\<close> below), so that nothing here
  fixes what a floating-point operation returns.
\<close>

datatype 'f pyval =
    PNone
  | PBool bool
  | PInt int
  | PFloat 'f
  | PStr string
  | PList "'f pyval list"
  | PDict "(string \<times> 'f pyval) list"

text \<open>A raised exception, with the text that \<open>str(e)\<close> gives (CPython 3 wording).\<close>

datatype exn =
    AttributeError string
  | TypeError string
  | KeyError string
  | IndexError string
  | ZeroDivisionError string
  | OverflowError string
  | TransportError string

fun str_exn :: "exn \<Rightarrow> string" where
  "str_exn (AttributeError m) = m"
| "str_exn (TypeError m) = m"
| "str_exn (KeyError m) = m"
| "str_exn (IndexError m) = m"
| "str_exn (ZeroDivisionError m) = m"
| "str_exn (OverflowError m) = m"
| "str_exn (TransportError m) = m"

fun exn_bind :: "exn + 'a \<Rightarrow> ('a \<Rightarrow> exn + 'b) \<Rightarrow> exn + 'b" where
  "exn_bind (Inl e) f = Inl e"
| "exn_bind (Inr v) f = f v"

definition sq :: string where
  "sq = [CHR 0x27]"

fun type_name :: "'f pyval \<Rightarrow> string" where
  "type_name PNone = ''NoneType''"
| "type_name (PBool b) = ''bool''"
| "type_name (PInt i) = ''int''"
| "type_name (PFloat r) = ''float''"
| "type_name (PStr s) = ''str''"
| "type_name (PList l) = ''list''"
| "type_name (PDict d) = ''dict''"

section \<open>Floating-point arithmetic of the runtime\<close>

text \<open>
  How a float compares with zero: below, equal (either signed zero), above, or not at all
  (NaN, for which \<open>x > 0\<close>, \<open>x < 0\<close> and \<open>x <= 0\<close> are all false and \<open>bool(x)\<close> is true).
\<close>

datatype fsign = FNeg | FZero | FPos | FNan

text \<open>
  The operations of the runtime that handler.py uses on floats:
  \<^item> \<open>f_sign\<close>: the comparison with zero;
  \<^item> \<open>f_of_int\<close>: \<open>float(i)\<close>, the conversion of an int operand in mixed arithmetic, which
    raises \<open>OverflowError\<close> (here \<open>None\<close>) when the int is too large;
  \<^item> \<open>f_int_div\<close>: \<open>i / j\<close> on two ints with \<open>j\<close> not zero, which is rounded once from the
    exact quotient and raises \<open>OverflowError\<close> (here \<open>None\<close>) when that is too large;
  \<^item> \<open>f_sub\<close>, \<open>f_mul\<close>, \<open>f_div\<close>: \<open>x - y\<close>, \<open>x * y\<close> and \<open>x / y\<close> (with \<open>y\<close> not zero) on
    floats, each rounded to a double;
  \<^item> \<open>f_round2\<close>: \<open>round(x, 2)\<close>; \<open>f_abs\<close>: \<open>abs(x)\<close>; \<open>f_str\<close>: \<open>str(x)\<close>, as an f-string
    prints it (exponent notation included);
  \<^item> \<open>f_quarter\<close>: the literal \<open>0.25\<close>.
\<close>

record 'f float_ops =
  f_sign :: "'f \<Rightarrow> fsign"
  f_of_int :: "int \<Rightarrow> 'f option"
  f_int_div :: "int \<Rightarrow> int \<Rightarrow> 'f option"
  f_sub :: "'f \<Rightarrow> 'f \<Rightarrow> 'f"
  f_mul :: "'f \<Rightarrow> 'f \<Rightarrow> 'f"
  f_div :: "'f \<Rightarrow> 'f \<Rightarrow> 'f"
  f_round2 :: "'f \<Rightarrow> 'f"
  f_abs :: "'f \<Rightarrow> 'f"
  f_str :: "'f \<Rightarrow> string"
  f_quarter :: "'f"

text \<open>A number: an int (a bool counts as the int 0 or 1) or a float.\<close>

datatype 'f num = NInt int | NFloat 'f

fun as_num :: "'f pyval \<Rightarrow> 'f num option" where
  "as_num (PBool b) = Some (NInt (if b then 1 else 0))"
| "as_num (PInt i) = Some (NInt i)"
| "as_num (PFloat x) = Some (NFloat x)"
| "as_num v = None"

fun of_num :: "'f num \<Rightarrow> 'f pyval" where
  "of_num (NInt i) = PInt i"
| "of_num (NFloat x) = PFloat x"

fun num_sign :: "'f float_ops \<Rightarrow> 'f num \<Rightarrow> fsign" where
  "num_sign fl (NInt i) = (if i < 0 then FNeg else if i = 0 then FZero else FPos)"
| "num_sign fl (NFloat x) = f_sign fl x"

text \<open>Truth value testing (\<open>if v\<close>, \<open>not v\<close>, \<open>v and ...\<close>).\<close>

fun truthy :: "'f float_ops \<Rightarrow> 'f pyval \<Rightarrow> bool" where
  "truthy fl PNone = False"
| "truthy fl (PBool b) = b"
| "truthy fl (PInt i) = (i \<noteq> 0)"
| "truthy fl (PFloat x) = (f_sign fl x \<noteq> FZero)"
| "truthy fl (PStr s) = (s \<noteq> [])"
| "truthy fl (PList l) = (l \<noteq> [])"
| "truthy fl (PDict d) = (d \<noteq> [])"

definition no_attr :: "'f pyval \<Rightarrow> string \<Rightarrow> exn" where
  "no_attr v a =
     AttributeError (sq @ type_name v @ sq @ '' object has no attribute '' @ sq @ a @ sq)"

text \<open>\<open>obj.get(key, default)\<close>: only a dict has the method.\<close>

fun py_get :: "'f pyval \<Rightarrow> string \<Rightarrow> 'f pyval \<Rightarrow> exn + 'f pyval" where
  "py_get (PDict d) k dflt = Inr (case map_of d k of None \<Rightarrow> dflt | Some v \<Rightarrow> v)"
| "py_get v k dflt = Inl (no_attr v ''get'')"

definition cmp_error :: "string \<Rightarrow> 'f pyval \<Rightarrow> exn" where
  "cmp_error opr v =
     TypeError (sq @ opr @ sq @ '' not supported between instances of '' @ sq @ type_name v
                @ sq @ '' and '' @ sq @ ''int'' @ sq)"

text \<open>\<open>v > 0\<close>, \<open>v <= 0\<close> and \<open>v < 0\<close>.\<close>

definition py_gt0 :: "'f float_ops \<Rightarrow> 'f pyval \<Rightarrow> exn + bool" where
  "py_gt0 fl v =
     (case as_num v of
        Some n \<Rightarrow> Inr (num_sign fl n = FPos)
      | None \<Rightarrow> Inl (cmp_error ''>'' v))"

definition py_le0 :: "'f float_ops \<Rightarrow> 'f pyval \<Rightarrow> exn + bool" where
  "py_le0 fl v =
     (case as_num v of
        Some n \<Rightarrow> Inr (num_sign fl n = FNeg \<or> num_sign fl n = FZero)
      | None \<Rightarrow> Inl (cmp_error ''<='' v))"

definition py_lt0 :: "'f float_ops \<Rightarrow> 'f pyval \<Rightarrow> exn + bool" where
  "py_lt0 fl v =
     (case as_num v of
        Some n \<Rightarrow> Inr (num_sign fl n = FNeg)
      | None \<Rightarrow> Inl (cmp_error ''<'' v))"

definition operand_error :: "string \<Rightarrow> 'f pyval \<Rightarrow> 'f pyval \<Rightarrow> exn" where
  "operand_error opr a b =
     TypeError (''unsupported operand type(s) for '' @ opr @ '': '' @ sq @ type_name a @ sq
                @ '' and '' @ sq @ type_name b @ sq)"

text \<open>The float operand of a mixed operation: an int is converted first.\<close>

fun to_float :: "'f float_ops \<Rightarrow> 'f num \<Rightarrow> exn + 'f" where
  "to_float fl (NFloat x) = Inr x"
| "to_float fl (NInt i) =
     (case f_of_int fl i of
        None \<Rightarrow> Inl (OverflowError ''int too large to convert to float'')
      | Some x \<Rightarrow> Inr x)"

text \<open>
  \<open>a - b\<close> and \<open>a * b\<close>: exact on two ints, a float operation otherwise. handler.py applies
  them only to values that an earlier comparison with zero has accepted, which are numbers.
\<close>

definition py_sub :: "'f float_ops \<Rightarrow> 'f pyval \<Rightarrow> 'f pyval \<Rightarrow> exn + 'f num" where
  "py_sub fl a b =
     (case (as_num a, as_num b) of
        (Some (NInt i), Some (NInt j)) \<Rightarrow> Inr (NInt (i - j))
      | (Some x, Some y) \<Rightarrow>
          exn_bind (to_float fl x) (\<lambda>u. exn_bind (to_float fl y) (\<lambda>v.
          Inr (NFloat (f_sub fl u v))))
      | _ \<Rightarrow> Inl (operand_error ''-'' a b))"

definition py_mul :: "'f float_ops \<Rightarrow> 'f pyval \<Rightarrow> 'f pyval \<Rightarrow> exn + 'f num" where
  "py_mul fl a b =
     (case (as_num a, as_num b) of
        (Some (NInt i), Some (NInt j)) \<Rightarrow> Inr (NInt (i * j))
      | (Some x, Some y) \<Rightarrow>
          exn_bind (to_float fl x) (\<lambda>u. exn_bind (to_float fl y) (\<lambda>v.
          Inr (NFloat (f_mul fl u v))))
      | _ \<Rightarrow> Inl (operand_error ''*'' a b))"

text \<open>\<open>a / b\<close>: true division, always a float.\<close>

definition py_truediv :: "'f float_ops \<Rightarrow> 'f pyval \<Rightarrow> 'f pyval \<Rightarrow> exn + 'f" where
  "py_truediv fl a b =
     (case (as_num a, as_num b) of
        (Some (NInt i), Some (NInt j)) \<Rightarrow>
          if j = 0 then Inl (ZeroDivisionError ''division by zero'')
          else (case f_int_div fl i j of
                  None \<Rightarrow> Inl (OverflowError ''integer division result too large for a float'')
                | Some q \<Rightarrow> Inr q)
      | (Some x, Some y) \<Rightarrow>
          exn_bind (to_float fl x) (\<lambda>u. exn_bind (to_float fl y) (\<lambda>v.
          if f_sign fl v = FZero then Inl (ZeroDivisionError ''float division by zero'')
          else Inr (f_div fl u v)))
      | _ \<Rightarrow> Inl (operand_error ''/'' a b))"

text \<open>Decimal digits of a natural number and of an int (\<open>str(n)\<close>).\<close>

definition digit_char :: "nat \<Rightarrow> char" where
  "digit_char n = ''0123456789'' ! n"

fun dec_nat :: "nat \<Rightarrow> string" where
  "dec_nat n = (if n < 10 then [digit_char n] else dec_nat (n div 10) @ [digit_char (n mod 10)])"

declare dec_nat.simps [simp del]

definition dec_int :: "int \<Rightarrow> string" where
  "dec_int i = (if i < 0 then ''-'' @ dec_nat (nat (- i)) else dec_nat (nat i))"

text \<open>\<open>round(n, 2)\<close>, \<open>abs(n)\<close> and \<open>str(n)\<close> on a number: an int rounds to itself.\<close>

fun num_round2 :: "'f float_ops \<Rightarrow> 'f num \<Rightarrow> 'f num" where
  "num_round2 fl (NInt i) = NInt i"
| "num_round2 fl (NFloat x) = NFloat (f_round2 fl x)"

fun num_abs :: "'f float_ops \<Rightarrow> 'f num \<Rightarrow> 'f num" where
  "num_abs fl (NInt i) = NInt \<bar>i\<bar>"
| "num_abs fl (NFloat x) = NFloat (f_abs fl x)"

fun num_str :: "'f float_ops \<Rightarrow> 'f num \<Rightarrow> string" where
  "num_str fl (NInt i) = dec_int i"
| "num_str fl (NFloat x) = f_str fl x"

section \<open>Equipment mapper\<close>

definition van_codes :: "string list" where
  "van_codes = [''V'', ''VA'', ''VB'', ''VC'', ''V2'', ''VZ'', ''VH'', ''VI'', ''VN'',
     ''VG'', ''VL'', ''VV'', ''VM'', ''VT'', ''VF'', ''VR'', ''VP'', ''VW'']"

definition reefer_codes :: "string list" where
  "reefer_codes = [''R'', ''RA'', ''R2'', ''RZ'', ''RN'', ''RL'', ''RM'', ''RG'', ''RV'',
     ''RP'']"

definition flatbed_codes :: "string list" where
  "flatbed_codes = [''F'', ''FA'', ''FT'', ''FM'', ''FD'', ''FR'', ''FO'', ''FN'', ''FS'']"

text \<open>
  \<open>map_equipment_code_to_rateview\<close>: \<open>x in list\<close> compares with \<open>==\<close>, so it accepts any
  value, and a value that is not a string is in none of the three lists of strings.
\<close>

definition map_equipment_code_to_rateview :: "'f pyval \<Rightarrow> string" where
  "map_equipment_code_to_rateview equipment_code =
     (if equipment_code \<in> PStr ` set van_codes then ''VAN''
      else if equipment_code \<in> PStr ` set reefer_codes then ''REEFER''
      else if equipment_code \<in> PStr ` set flatbed_codes then ''FLATBED''
      else ''FLATBED'')"

section \<open>Rate extraction\<close>

text \<open>\<open>load.get("tripLength", {}).get("miles", 0)\<close> (lines 29, 64 and 250).\<close>

definition trip_miles :: "'f pyval \<Rightarrow> exn + 'f pyval" where
  "trip_miles load =
     exn_bind (py_get load ''tripLength'' (PDict [])) (\<lambda>t. py_get t ''miles'' (PInt 0))"

text \<open>
  \<open>load.get("privateNetworkRateInfo", {}).get("bookable", {}).get("rate", {}).get("rateUsd", 0)\<close>
  (lines 34 and 48).
\<close>

definition private_rate_usd :: "'f pyval \<Rightarrow> exn + 'f pyval" where
  "private_rate_usd load =
     exn_bind (py_get load ''privateNetworkRateInfo'' (PDict [])) (\<lambda>p.
     exn_bind (py_get p ''bookable'' (PDict [])) (\<lambda>b.
     exn_bind (py_get b ''rate'' (PDict [])) (\<lambda>r.
     py_get r ''rateUsd'' (PInt 0))))"

text \<open>\<open>load.get("loadBoardRateInfo", {}).get("nonBookable", {}).get("rateUsd", 0)\<close> (lines 39, 53).\<close>

definition load_board_rate_usd :: "'f pyval \<Rightarrow> exn + 'f pyval" where
  "load_board_rate_usd load =
     exn_bind (py_get load ''loadBoardRateInfo'' (PDict [])) (\<lambda>l.
     exn_bind (py_get l ''nonBookable'' (PDict [])) (\<lambda>n.
     py_get n ''rateUsd'' (PInt 0)))"

definition get_broker_rate_per_mile :: "'f float_ops \<Rightarrow> 'f pyval \<Rightarrow> exn + 'f pyval" where
  "get_broker_rate_per_mile fl load =
     exn_bind (py_get load ''estimatedRatePerMile'' (PInt 0)) (\<lambda>est.
     exn_bind (py_gt0 fl est) (\<lambda>est_pos.
     if est_pos then Inr est
     else
       exn_bind (trip_miles load) (\<lambda>trip_length_miles.
       exn_bind (py_le0 fl trip_length_miles) (\<lambda>no_miles.
       if no_miles then Inr PNone
       else
         exn_bind (private_rate_usd load) (\<lambda>private_rate.
         exn_bind (py_gt0 fl private_rate) (\<lambda>private_pos.
         if private_pos
         then exn_bind (py_truediv fl private_rate trip_length_miles) (\<lambda>q. Inr (PFloat q))
         else
           exn_bind (load_board_rate_usd load) (\<lambda>load_board_rate.
           exn_bind (py_gt0 fl load_board_rate) (\<lambda>board_pos.
           if board_pos
           then exn_bind (py_truediv fl load_board_rate trip_length_miles) (\<lambda>q. Inr (PFloat q))
           else Inr PNone))))))))"

definition get_total_load_amount :: "'f float_ops \<Rightarrow> 'f pyval \<Rightarrow> exn + 'f pyval" where
  "get_total_load_amount fl load =
     exn_bind (private_rate_usd load) (\<lambda>private_rate.
     exn_bind (py_gt0 fl private_rate) (\<lambda>private_pos.
     if private_pos then Inr private_rate
     else
       exn_bind (load_board_rate_usd load) (\<lambda>load_board_rate.
       exn_bind (py_gt0 fl load_board_rate) (\<lambda>board_pos.
       if board_pos then Inr load_board_rate else Inr PNone))))"

section \<open>Driver pay\<close>

text \<open>\<open>a and b\<close> on a condition that may raise: \<open>b\<close> is evaluated only when \<open>a\<close> holds.\<close>

definition and_then :: "bool \<Rightarrow> exn + bool \<Rightarrow> exn + bool" where
  "and_then a b = (if a then b else Inr False)"

definition pay_record :: "'f pyval \<Rightarrow> string \<Rightarrow> 'f pyval" where
  "pay_record amount source =
     PDict [(''amount'', amount), (''calculation_method'', PStr source)]"

definition calculate_driver_pay :: "'f float_ops \<Rightarrow> 'f pyval \<Rightarrow> exn + 'f pyval" where
  "calculate_driver_pay fl load =
     exn_bind (trip_miles load) (\<lambda>trip_length_miles.
     exn_bind (get_total_load_amount fl load) (\<lambda>total_load_amount.
     exn_bind (and_then (truthy fl total_load_amount) (py_gt0 fl total_load_amount))
       (\<lambda>have_total.
     if have_total
     then
       exn_bind (py_mul fl total_load_amount (PFloat (f_quarter fl))) (\<lambda>driver_pay.
       Inr (pay_record (of_num (num_round2 fl driver_pay)) ''percentage_of_total''))
     else
       exn_bind (get_broker_rate_per_mile fl load) (\<lambda>rate_per_mile.
       exn_bind (and_then (truthy fl rate_per_mile)
                   (exn_bind (py_gt0 fl rate_per_mile) (\<lambda>rate_pos.
                    and_then rate_pos (py_gt0 fl trip_length_miles)))) (\<lambda>have_rate.
       if have_rate
       then
         exn_bind (py_mul fl rate_per_mile trip_length_miles) (\<lambda>total_calculated.
         exn_bind (py_mul fl (of_num total_calculated) (PFloat (f_quarter fl))) (\<lambda>driver_pay.
         Inr (pay_record (of_num (num_round2 fl driver_pay))
                ''calculated_from_rate_per_mile'')))
       else Inr (pay_record (PStr ''Not Available'') ''insufficient_data''))))))"

section \<open>Rate comparison\<close>

text \<open>\<open>v is None or v <= 0\<close>.\<close>

definition none_or_le0 :: "'f float_ops \<Rightarrow> 'f pyval \<Rightarrow> exn + bool" where
  "none_or_le0 fl v = (if v = PNone then Inr True else py_le0 fl v)"

text \<open>\<open>a or b\<close> on conditions that may raise: \<open>b\<close> is evaluated only when \<open>a\<close> fails.\<close>

definition or_else :: "exn + bool \<Rightarrow> exn + bool \<Rightarrow> exn + bool" where
  "or_else a b = exn_bind a (\<lambda>x. if x then Inr True else b)"

text \<open>
  Lines 106 to 112: the label, chosen by comparing the unrounded difference with zero; the
  rounded value is computed only inside the branch that prints it.
\<close>

definition comparison_label :: "'f float_ops \<Rightarrow> 'f num \<Rightarrow> string" where
  "comparison_label fl difference_percentage =
     (if num_sign fl difference_percentage = FPos
      then num_str fl (num_abs fl (num_round2 fl difference_percentage))
           @ ''% above market rate''
      else if num_sign fl difference_percentage = FNeg
      then num_str fl (num_abs fl (num_round2 fl difference_percentage))
           @ ''% below market rate''
      else ''At market rate'')"

definition get_rate_comparison ::
  "'f float_ops \<Rightarrow> 'f pyval \<Rightarrow> 'f pyval \<Rightarrow> exn + 'f pyval" where
  "get_rate_comparison fl load_rate market_rate =
     exn_bind (or_else (none_or_le0 fl load_rate) (none_or_le0 fl market_rate)) (\<lambda>unusable.
     if unusable
     then
       exn_bind (none_or_le0 fl load_rate) (\<lambda>lb.
       exn_bind (none_or_le0 fl market_rate) (\<lambda>mb.
       Inr (PDict [
         (''broker_rate_per_mile'', if lb then PStr ''Not Available'' else load_rate),
         (''market_rate_per_mile'', if mb then PStr ''Not Available'' else market_rate),
         (''difference_percentage'', PStr ''N/A''),
         (''comparison'', PStr ''Rate comparison not possible'')])))
     else
       exn_bind (py_sub fl load_rate market_rate) (\<lambda>diff.
       exn_bind (py_truediv fl (of_num diff) market_rate) (\<lambda>ratio.
       exn_bind (py_mul fl (PFloat ratio) (PInt 100)) (\<lambda>difference_percentage.
       Inr (PDict [
         (''broker_rate_per_mile'', load_rate),
         (''market_rate_per_mile'', market_rate),
         (''difference_percentage'', of_num (num_round2 fl difference_percentage)),
         (''comparison'', PStr (comparison_label fl difference_percentage))])))))"


section \<open>More operations on Python values\<close>

fun is_dict :: "'f pyval \<Rightarrow> bool" where
  "is_dict (PDict d) = True"
| "is_dict v = False"

text \<open>\<open>"key" in obj\<close>: a key of a dict, an element of a list, a substring of a string.\<close>

fun py_contains :: "string \<Rightarrow> 'f pyval \<Rightarrow> exn + bool" where
  "py_contains k (PDict d) = Inr (map_of d k \<noteq> None)"
| "py_contains k (PList l) = Inr (PStr k \<in> set l)"
| "py_contains k (PStr s) = Inr (sublist k s)"
| "py_contains k v =
     Inl (TypeError (''argument of type '' @ sq @ type_name v @ sq @ '' is not iterable''))"

definition not_subscriptable :: "'f pyval \<Rightarrow> exn" where
  "not_subscriptable v = TypeError (sq @ type_name v @ sq @ '' object is not subscriptable'')"

text \<open>\<open>obj["key"]\<close>.\<close>

fun py_index :: "'f pyval \<Rightarrow> string \<Rightarrow> exn + 'f pyval" where
  "py_index (PDict d) k =
     (case map_of d k of None \<Rightarrow> Inl (KeyError (sq @ k @ sq)) | Some v \<Rightarrow> Inr v)"
| "py_index (PList l) k = Inl (TypeError ''list indices must be integers or slices, not str'')"
| "py_index (PStr s) k = Inl (TypeError ''string indices must be integers'')"
| "py_index v k = Inl (not_subscriptable v)"

text \<open>\<open>obj[0]\<close>: the keys of a decoded JSON object are strings, so a dict has no key 0.\<close>

fun py_index0 :: "'f pyval \<Rightarrow> exn + 'f pyval" where
  "py_index0 (PList []) = Inl (IndexError ''list index out of range'')"
| "py_index0 (PList (x # xs)) = Inr x"
| "py_index0 (PStr []) = Inl (IndexError ''string index out of range'')"
| "py_index0 (PStr (c # cs)) = Inr (PStr [c])"
| "py_index0 (PDict d) = Inl (KeyError ''0'')"
| "py_index0 v = Inl (not_subscriptable v)"

text \<open>\<open>len(obj) > 0\<close>.\<close>

fun py_len_gt0 :: "'f pyval \<Rightarrow> exn + bool" where
  "py_len_gt0 (PList l) = Inr (0 < length l)"
| "py_len_gt0 (PStr s) = Inr (0 < length s)"
| "py_len_gt0 (PDict d) = Inr (0 < length d)"
| "py_len_gt0 v = Inl (TypeError (''object of type '' @ sq @ type_name v @ sq @ '' has no len()''))"

text \<open>The items a \<open>for\<close> loop visits: the elements of a list, the keys of a dict, the
  characters of a string.\<close>

fun iter_items :: "'f pyval \<Rightarrow> exn + 'f pyval list" where
  "iter_items (PList l) = Inr l"
| "iter_items (PDict d) = Inr (map (\<lambda>kv. PStr (fst kv)) d)"
| "iter_items (PStr s) = Inr (map (\<lambda>c. PStr [c]) s)"
| "iter_items v = Inl (TypeError (sq @ type_name v @ sq @ '' object is not iterable''))"

text \<open>\<open>d[key] = value\<close> on a dict: replaces the binding of the key or adds one at the end.\<close>

fun alist_set ::
  "string \<Rightarrow> 'f pyval \<Rightarrow> (string \<times> 'f pyval) list \<Rightarrow> (string \<times> 'f pyval) list" where
  "alist_set k v [] = [(k, v)]"
| "alist_set k v (kv # kvs) = (if fst kv = k then (k, v) # kvs else kv # alist_set k v kvs)"

definition error_dict :: "string \<Rightarrow> 'f pyval" where
  "error_dict msg = PDict [(''error'', PStr msg)]"

section \<open>Rate service client\<close>

text \<open>
  The HTTP transport is outside the program. A request carries the URL, the content type,
  the value put after \<open>Bearer\<close> in the Authorization header, and the payload that
  \<open>json.dumps\<close> serialises. The transport either raises or answers with a status code, a
  body text and the outcome of \<open>response.json()\<close>, which raises on a malformed body. The
  state \<open>'w\<close> is the outside world, so that two equal requests may get different answers.
\<close>

record 'f request =
  url :: string
  content_type :: string
  bearer :: "'f pyval"
  payload :: "'f pyval"

record 'f http_response =
  status_code :: int
  resp_text :: string
  resp_json :: "exn + 'f pyval"

type_synonym ('f, 'w) transport =
  "'f request \<Rightarrow> 'w \<Rightarrow> (exn + 'f http_response) \<times> 'w"

definition lookup_payload :: "'f pyval \<Rightarrow> 'f pyval \<Rightarrow> string \<Rightarrow> exn + 'f pyval" where
  "lookup_payload origin destination equipment =
     exn_bind (py_get origin ''city'' (PStr [])) (\<lambda>origin_city.
     exn_bind (py_get origin ''stateProv'' (PStr [])) (\<lambda>origin_state.
     exn_bind (py_get destination ''city'' (PStr [])) (\<lambda>destination_city.
     exn_bind (py_get destination ''stateProv'' (PStr [])) (\<lambda>destination_state.
     Inr (PList [PDict [
       (''origin'', PDict [(''city'', origin_city), (''stateOrProvince'', origin_state)]),
       (''destination'',
          PDict [(''city'', destination_city), (''stateOrProvince'', destination_state)]),
       (''rateType'', PStr ''SPOT''),
       (''equipment'', PStr equipment),
       (''includeMyRate'', PBool True),
       (''targetEscalation'', PDict [(''escalationType'', PStr ''BEST_FIT'')])]])))))"

definition lookup_request :: "'f pyval \<Rightarrow> 'f pyval \<Rightarrow> 'f request" where
  "lookup_request body access_token =
     \<lparr>url = ''https://analytics.api.staging.dat.com/linehaulrates'' @ ''/v1/lookups'',
      content_type = ''application/json'',
      bearer = access_token,
      payload = body\<rparr>"

text \<open>
  \<open>call_rateview_api\<close>: the payload is built before the \<open>try\<close>, so a failure there is raised
  to the caller and no request is sent; everything after it is caught.
\<close>

definition call_rateview_api ::
  "('f, 'w) transport \<Rightarrow> 'f pyval \<Rightarrow> 'f pyval \<Rightarrow> string \<Rightarrow> 'f pyval \<Rightarrow> 'w
   \<Rightarrow> (exn + 'f pyval) \<times> 'w" where
  "call_rateview_api post origin destination equipment access_token w =
     (case lookup_payload origin destination equipment of
        Inl e \<Rightarrow> (Inl e, w)
      | Inr body \<Rightarrow>
          (case post (lookup_request body access_token) w of
             (Inl e, w') \<Rightarrow> (Inr (error_dict (''Exception: '' @ str_exn e)), w')
           | (Inr response, w') \<Rightarrow>
               if status_code response = 200 \<or> status_code response = 201
               then (case resp_json response of
                       Inl e \<Rightarrow> (Inr (error_dict (''Exception: '' @ str_exn e)), w')
                     | Inr parsed \<Rightarrow> (Inr parsed, w'))
               else (Inr (PDict [
                       (''error'', PStr (''API Error: '' @ dec_int (status_code response))),
                       (''detail'', PStr (resp_text response))]), w')))"

section \<open>Batch orchestration\<close>

text \<open>
  Lines 204 to 230: the three variables \<open>market_rate_per_mile\<close>, \<open>market_data\<close> and
  \<open>rate_data\<close> after the \<open>try\<close> block. An exception replaces \<open>market_data\<close> by an error
  marker and leaves the other two as they were when it was raised.
\<close>

definition rate_data_error :: "exn \<Rightarrow> 'f pyval" where
  "rate_data_error e = error_dict (''Error processing rate data: '' @ str_exn e)"

definition has_per_mile_rate :: "'f pyval \<Rightarrow> exn + bool" where
  "has_per_mile_rate rate_data =
     exn_bind (py_contains ''perMile'' rate_data) (\<lambda>c.
     and_then c (exn_bind (py_index rate_data ''perMile'') (py_contains ''rateUsd'')))"

definition parse_rate_response ::
  "'f float_ops \<Rightarrow> 'f pyval \<Rightarrow> 'f pyval \<times> 'f pyval \<times> 'f pyval" where
  "parse_rate_response fl rateview_response =
     (case py_contains ''error'' rateview_response of
        Inl e \<Rightarrow> (PNone, rate_data_error e, PNone)
      | Inr True \<Rightarrow>
          (case py_get rateview_response ''error'' PNone of
             Inl e \<Rightarrow> (PNone, rate_data_error e, PNone)
           | Inr msg \<Rightarrow> (PNone, PDict [(''error'', msg)], PNone))
      | Inr False \<Rightarrow>
          (case py_get rateview_response ''rateResponses'' (PList []) of
             Inl e \<Rightarrow> (PNone, rate_data_error e, PNone)
           | Inr rate_responses \<Rightarrow>
               (case and_then (truthy fl rate_responses) (py_len_gt0 rate_responses) of
                  Inl e \<Rightarrow> (PNone, rate_data_error e, PNone)
                | Inr False \<Rightarrow> (PNone, PNone, PNone)
                | Inr True \<Rightarrow>
                    (case exn_bind (py_index0 rate_responses)
                            (\<lambda>first. py_get first ''response'' (PDict [])) of
                       Inl e \<Rightarrow> (PNone, rate_data_error e, PNone)
                     | Inr response_obj \<Rightarrow>
                         (case py_contains ''rate'' response_obj of
                            Inl e \<Rightarrow> (PNone, rate_data_error e, PNone)
                          | Inr False \<Rightarrow> (PNone, response_obj, PNone)
                          | Inr True \<Rightarrow>
                              (case py_index response_obj ''rate'' of
                                 Inl e \<Rightarrow> (PNone, rate_data_error e, PNone)
                               | Inr rate_data \<Rightarrow>
                                   (case has_per_mile_rate rate_data of
                                      Inl e \<Rightarrow> (PNone, rate_data_error e, rate_data)
                                    | Inr False \<Rightarrow> (PNone, response_obj, rate_data)
                                    | Inr True \<Rightarrow>
                                        (case exn_bind (py_index rate_data ''perMile'')
                                                (\<lambda>pm. py_index pm ''rateUsd'') of
                                           Inl e \<Rightarrow> (PNone, rate_data_error e, rate_data)
                                         | Inr rate \<Rightarrow> (rate, response_obj, rate_data)))))))))"

text \<open>Lines 236 to 253: the dict literal of a processed match.\<close>

definition build_processed_match ::
  "'f pyval \<Rightarrow> 'f pyval \<Rightarrow> 'f pyval \<Rightarrow> 'f pyval \<Rightarrow> string \<Rightarrow> 'f pyval \<Rightarrow> 'f pyval \<Rightarrow> 'f pyval
   \<Rightarrow> exn + (string \<times> 'f pyval) list" where
  "build_processed_match match_id origin destination_place equipment_code rateview_equipment
       match comparison driver_pay =
     exn_bind (py_get origin ''city'' (PStr [])) (\<lambda>origin_city.
     exn_bind (py_get origin ''stateProv'' (PStr [])) (\<lambda>origin_state.
     exn_bind (py_get destination_place ''city'' (PStr [])) (\<lambda>destination_city.
     exn_bind (py_get destination_place ''stateProv'' (PStr [])) (\<lambda>destination_state.
     exn_bind (trip_miles match) (\<lambda>miles.
     Inr [(''matchId'', match_id),
          (''origin'', PDict [(''city'', origin_city), (''state'', origin_state)]),
          (''destination'', PDict [(''city'', destination_city), (''state'', destination_state)]),
          (''equipmentType'',
             PDict [(''code'', equipment_code), (''rateviewType'', PStr rateview_equipment)]),
          (''tripMiles'', miles),
          (''rateComparison'', comparison),
          (''driver_pay'', driver_pay)])))))"

text \<open>Lines 256 to 272: the optional \<open>marketData\<close> entry.\<close>

definition market_data_fields :: "'f pyval \<Rightarrow> exn + (string \<times> 'f pyval) list" where
  "market_data_fields rate_data =
     exn_bind (py_get rate_data ''mileage'' PNone) (\<lambda>mileage.
     exn_bind (py_get rate_data ''reports'' PNone) (\<lambda>reports.
     exn_bind (py_get rate_data ''companies'' PNone) (\<lambda>companies.
     exn_bind (py_get rate_data ''standardDeviation'' PNone) (\<lambda>standard_deviation.
     exn_bind (py_get rate_data ''perMile'' (PDict [])) (\<lambda>per_mile.
     exn_bind (py_get rate_data ''perTrip'' (PDict [])) (\<lambda>per_trip.
     exn_bind (py_get rate_data ''averageFuelSurchargePerMileUsd'' PNone) (\<lambda>fuel_mile.
     exn_bind (py_get rate_data ''averageFuelSurchargePerTripUsd'' PNone) (\<lambda>fuel_trip.
     Inr [(''mileage'', mileage),
          (''reports'', reports),
          (''companies'', companies),
          (''standardDeviation'', standard_deviation),
          (''perMile'', per_mile),
          (''perTrip'', per_trip),
          (''averageFuelSurchargePerMileUsd'', fuel_mile),
          (''averageFuelSurchargePerTripUsd'', fuel_trip)]))))))))"

definition attach_market_data ::
  "'f float_ops \<Rightarrow> (string \<times> 'f pyval) list \<Rightarrow> 'f pyval \<Rightarrow> 'f pyval
   \<Rightarrow> exn + (string \<times> 'f pyval) list" where
  "attach_market_data fl processed_match market_data rate_data =
     (if truthy fl rate_data
      then
        exn_bind (market_data_fields rate_data) (\<lambda>fields.
        exn_bind (and_then (truthy fl market_data) (py_contains ''escalation'' market_data))
          (\<lambda>has_escalation.
        if has_escalation
        then exn_bind (py_index market_data ''escalation'') (\<lambda>escalation.
               Inr (alist_set ''marketData'' (PDict (alist_set ''escalation'' escalation fields))
                      processed_match))
        else Inr (alist_set ''marketData'' (PDict fields) processed_match)))
      else
        exn_bind (and_then (truthy fl market_data) (py_contains ''error'' market_data))
          (\<lambda>has_error.
        if has_error
        then exn_bind (py_index market_data ''error'') (\<lambda>msg.
               Inr (alist_set ''marketData'' (PDict [(''error'', msg)]) processed_match))
        else Inr processed_match))"

text \<open>Lines 179 to 184: the match id, the asset info, the origin and the destination place.\<close>

definition match_header ::
  "'f pyval \<Rightarrow> exn + 'f pyval \<times> 'f pyval \<times> 'f pyval \<times> 'f pyval" where
  "match_header match =
     exn_bind (py_get match ''matchId'' (PStr [])) (\<lambda>match_id.
     exn_bind (py_get match ''matchingAssetInfo'' (PDict [])) (\<lambda>matching_asset_info.
     exn_bind (py_get matching_asset_info ''origin'' (PDict [])) (\<lambda>origin.
     exn_bind (py_get matching_asset_info ''destination'' (PDict [])) (\<lambda>destination.
     exn_bind (py_get destination ''place'' (PDict [])) (\<lambda>destination_place.
     Inr (match_id, matching_asset_info, origin, destination_place))))))"

text \<open>Lines 190 to 274: the body of the loop for a match that is not skipped.\<close>

definition enrich_match ::
  "'f float_ops \<Rightarrow> ('f, 'w) transport \<Rightarrow> 'f pyval \<Rightarrow> 'f pyval \<Rightarrow> 'f pyval \<Rightarrow> 'f pyval
   \<Rightarrow> 'f pyval \<Rightarrow> 'f pyval \<Rightarrow> 'w
   \<Rightarrow> (exn + 'f pyval) \<times> 'w" where
  "enrich_match fl post access_token match match_id matching_asset_info origin
       destination_place w =
     (case exn_bind (py_get matching_asset_info ''equipmentType'' (PStr []))
             (\<lambda>equipment_code.
           exn_bind (get_broker_rate_per_mile fl match) (\<lambda>broker_rate_per_mile.
           exn_bind (calculate_driver_pay fl match) (\<lambda>driver_pay.
           Inr (equipment_code, broker_rate_per_mile, driver_pay)))) of
        Inl e \<Rightarrow> (Inl e, w)
      | Inr (equipment_code, broker_rate_per_mile, driver_pay) \<Rightarrow>
          (case call_rateview_api post origin destination_place
                  (map_equipment_code_to_rateview equipment_code) access_token w of
             (Inl e, w') \<Rightarrow> (Inl e, w')
           | (Inr rateview_response, w') \<Rightarrow>
               (case parse_rate_response fl rateview_response of
                  (market_rate_per_mile, market_data, rate_data) \<Rightarrow>
                    (exn_bind (get_rate_comparison fl broker_rate_per_mile market_rate_per_mile)
                       (\<lambda>comparison.
                     exn_bind (build_processed_match match_id origin destination_place
                                 equipment_code (map_equipment_code_to_rateview equipment_code)
                                 match comparison driver_pay) (\<lambda>processed_match.
                     exn_bind (attach_market_data fl processed_match market_data rate_data)
                       (\<lambda>entry. Inr (PDict entry)))), w'))))"

text \<open>
  One turn of the loop: \<open>None\<close> is the \<open>continue\<close> of line 188, \<open>Some\<close> the entry that
  line 274 appends.
\<close>

definition process_match ::
  "'f float_ops \<Rightarrow> ('f, 'w) transport \<Rightarrow> 'f pyval \<Rightarrow> 'f pyval \<Rightarrow> 'w
   \<Rightarrow> (exn + 'f pyval option) \<times> 'w" where
  "process_match fl post access_token match w =
     (case match_header match of
        Inl e \<Rightarrow> (Inl e, w)
      | Inr (match_id, matching_asset_info, origin, destination_place) \<Rightarrow>
          if \<not> truthy fl origin \<or> \<not> truthy fl destination_place then (Inr None, w)
          else (case enrich_match fl post access_token match match_id matching_asset_info origin
                       destination_place w of
                  (Inl e, w') \<Rightarrow> (Inl e, w')
                | (Inr entry, w') \<Rightarrow> (Inr (Some entry), w')))"

fun process_loop ::
  "'f float_ops \<Rightarrow> ('f, 'w) transport \<Rightarrow> 'f pyval \<Rightarrow> 'f pyval list \<Rightarrow> 'f pyval list \<Rightarrow> 'w
   \<Rightarrow> (exn + 'f pyval list) \<times> 'w" where
  "process_loop fl post access_token [] processed w = (Inr processed, w)"
| "process_loop fl post access_token (match # matches) processed w =
     (case process_match fl post access_token match w of
        (Inl e, w') \<Rightarrow> (Inl e, w')
      | (Inr None, w') \<Rightarrow> process_loop fl post access_token matches processed w'
      | (Inr (Some entry), w') \<Rightarrow>
          process_loop fl post access_token matches (processed @ [entry]) w')"

text \<open>The items that \<open>for match in loads_data.get("matches", [])\<close> visits.\<close>

definition batch_matches :: "'f pyval \<Rightarrow> exn + 'f pyval list" where
  "batch_matches loads_data = exn_bind (py_get loads_data ''matches'' (PList [])) iter_items"

definition process_loads_and_compare_rates ::
  "'f float_ops \<Rightarrow> ('f, 'w) transport \<Rightarrow> 'f pyval \<Rightarrow> 'f pyval \<Rightarrow> 'w
   \<Rightarrow> (exn + 'f pyval) \<times> 'w" where
  "process_loads_and_compare_rates fl post loads_data access_token w =
     (case exn_bind (py_get loads_data ''matchCounts'' (PDict [])) (\<lambda>match_counts.
           exn_bind (batch_matches loads_data) (\<lambda>matches. Inr (match_counts, matches))) of
        Inl e \<Rightarrow> (Inl e, w)
      | Inr (match_counts, matches) \<Rightarrow>
          (case process_loop fl post access_token matches [] w of
             (Inl e, w') \<Rightarrow> (Inl e, w')
           | (Inr processed, w') \<Rightarrow>
               (Inr (PDict [(''matchCounts'', match_counts),
                            (''processedMatches'', PList processed)]), w')))"

definition process_freight_data ::
  "'f float_ops \<Rightarrow> ('f, 'w) transport \<Rightarrow> 'f pyval \<Rightarrow> 'f pyval \<Rightarrow> 'w
   \<Rightarrow> (exn + 'f pyval) \<times> 'w" where
  "process_freight_data fl post loads_data access_token w =
     process_loads_and_compare_rates fl post loads_data access_token w"

section \<open>Job boundary\<close>

text \<open>\<open>handler\<close>: \<open>job["input"]\<close> is read before any check and outside the \<open>try\<close>.\<close>

definition handler ::
  "'f float_ops \<Rightarrow> ('f, 'w) transport \<Rightarrow> 'f pyval \<Rightarrow> 'w \<Rightarrow> (exn + 'f pyval) \<times> 'w" where
  "handler fl post job w =
     (case py_index job ''input'' of
        Inl e \<Rightarrow> (Inl e, w)
      | Inr job_input \<Rightarrow>
          if \<not> is_dict job_input then (Inr (error_dict ''Input must be a dictionary''), w)
          else
            (case exn_bind (py_get job_input ''freight_data'' PNone) (\<lambda>freight_data.
                  exn_bind (py_get job_input ''access_token'' PNone) (\<lambda>access_token.
                  Inr (freight_data, access_token))) of
               Inl e \<Rightarrow> (Inl e, w)
             | Inr (freight_data, access_token) \<Rightarrow>
                 if \<not> truthy fl freight_data
                 then (Inr (error_dict ''Missing required parameter: freight_data''), w)
                 else if \<not> truthy fl access_token
                 then (Inr (error_dict ''Missing required parameter: access_token''), w)
                 else
                   (case process_freight_data fl post freight_data access_token w of
                      (Inl e, w') \<Rightarrow>
                        (Inr (error_dict (''Processing error: '' @ str_exn e)), w')
                    | (Inr result, w') \<Rightarrow> (Inr result, w'))))"

section \<open>Specification-level definitions\<close>

text \<open>
  The equipment mapper as the specification words it: a lookup in two sets (van codes,
  reefer codes) with \<open>FLATBED\<close> as the default case.
\<close>

definition two_set_lookup :: "string \<Rightarrow> string" where
  "two_set_lookup code =
     (if code \<in> set van_codes then ''VAN''
      else if code \<in> set reefer_codes then ''REEFER''
      else ''FLATBED'')"

text \<open>
  A rate as the comparator receives it is absent (\<open>None\<close>) or a number; it is unusable
  when it is absent or not positive.
\<close>

definition rate_like :: "'f pyval \<Rightarrow> bool" where
  "rate_like v = (v = PNone \<or> as_num v \<noteq> None)"

definition unusable :: "'f float_ops \<Rightarrow> 'f pyval \<Rightarrow> bool" where
  "unusable fl v =
     (case as_num v of
        None \<Rightarrow> True
      | Some n \<Rightarrow> num_sign fl n = FNeg \<or> num_sign fl n = FZero)"

text \<open>
  A match is skipped when its header can be read and the origin or the destination place
  is falsy (line 187).
\<close>

definition skipped :: "'f float_ops \<Rightarrow> 'f pyval \<Rightarrow> bool" where
  "skipped fl match =
     (case match_header match of
        Inl e \<Rightarrow> False
      | Inr (match_id, matching_asset_info, origin, destination_place) \<Rightarrow>
          \<not> truthy fl origin \<or> \<not> truthy fl destination_place)"

section \<open>Concrete arithmetic, transports and inputs\<close>

text \<open>
  An arithmetic to run the model on concrete inputs: floats as exact rationals, rounded to
  two decimals half to even and printed in plain decimals. It stands for the doubles only
  where the doubles are exact, as on the inputs below (small multiples of powers of two),
  and serves only to evaluate the model on those inputs.
\<close>

definition exact_round2 :: "real \<Rightarrow> real" where
  "exact_round2 x =
     (let y = x * 100; f = \<lfloor>y\<rfloor>; d = y - of_int f
      in of_int (if d < 1 / 2 then f else if 1 / 2 < d then f + 1
                 else if even f then f else f + 1) / 100)"

definition exact_str :: "real \<Rightarrow> string" where
  "exact_str x =
     (let k = nat \<lfloor>\<bar>x\<bar> * 100\<rfloor>; fp = k mod 100
      in (if x < 0 then ''-'' else []) @ dec_nat (k div 100) @ ''.'' @
         (if fp mod 10 = 0 then [digit_char (fp div 10)]
          else [digit_char (fp div 10), digit_char (fp mod 10)]))"

definition exact :: "real float_ops" where
  "exact =
     \<lparr>f_sign = (\<lambda>x. if x < 0 then FNeg else if x = 0 then FZero else FPos),
      f_of_int = (\<lambda>i. Some (of_int i)),
      f_int_div = (\<lambda>i j. Some (of_int i / of_int j)),
      f_sub = (\<lambda>x y. x - y),
      f_mul = (\<lambda>x y. x * y),
      f_div = (\<lambda>x y. x / y),
      f_round2 = exact_round2,
      f_abs = (\<lambda>x. \<bar>x\<bar>),
      f_str = exact_str,
      f_quarter = 1 / 4\<rparr>"

text \<open>
  A transport that never connects, one that always gives the same answer, a well-formed
  match and a batch of three matches whose second one has no origin.
\<close>

definition offline :: "('f, unit) transport" where
  "offline req w = (Inl (TransportError ''connection refused''), w)"

definition answering :: "'f http_response \<Rightarrow> ('f, unit) transport" where
  "answering response req w = (Inr response, w)"

definition sample_match :: "string \<Rightarrow> real pyval" where
  "sample_match i =
     PDict [(''matchId'', PStr i),
            (''estimatedRatePerMile'', PFloat 2),
            (''tripLength'', PDict [(''miles'', PInt 500)]),
            (''matchingAssetInfo'',
               PDict [(''equipmentType'', PStr ''V''),
                      (''origin'', PDict [(''city'', PStr ''Joliet''), (''stateProv'', PStr ''IL'')]),
                      (''destination'',
                         PDict [(''place'',
                            PDict [(''city'', PStr ''Waco''), (''stateProv'', PStr ''TX'')])])])]"

definition sample_batch :: "real pyval" where
  "sample_batch =
     PDict [(''matchCounts'', PDict [(''total'', PInt 3)]),
            (''matches'',
               PList [sample_match ''a'', PDict [(''matchId'', PStr ''b'')], sample_match ''c''])]"

text \<open>
  Two batches of one match each: no origin and a null destination; an empty origin and a
  null destination.
\<close>

definition null_destination_batch :: "real pyval" where
  "null_destination_batch =
     PDict [(''matchCounts'', PDict [(''total'', PInt 1)]),
            (''matches'',
               PList [PDict [(''matchId'', PStr ''n''),
                             (''matchingAssetInfo'', PDict [(''destination'', PNone)])]])]"

definition empty_origin_null_destination_batch :: "real pyval" where
  "empty_origin_null_destination_batch =
     PDict [(''matchCounts'', PDict [(''total'', PInt 1)]),
            (''matches'',
               PList [PDict [(''matchId'', PStr ''e''),
                             (''matchingAssetInfo'',
                                PDict [(''origin'', PDict []), (''destination'', PNone)])]])]"

section \<open>Helper lemmas\<close>

lemma exn_bind_eq_Inr: "(exn_bind x f = Inr y) = (\<exists>v. x = Inr v \<and> f v = Inr y)"
  by (cases x) auto

lemma py_gt0_Inr:
  "(py_gt0 fl v = Inr c) = (\<exists>n. as_num v = Some n \<and> c = (num_sign fl n = FPos))"
  by (auto simp: py_gt0_def split: option.splits)

lemma py_le0_Inr:
  "(py_le0 fl v = Inr c) =
     (\<exists>n. as_num v = Some n \<and> c = (num_sign fl n = FNeg \<or> num_sign fl n = FZero))"
  by (auto simp: py_le0_def split: option.splits)




lemma broker_rate_value:
  assumes "get_broker_rate_per_mile fl load = Inr r"
  shows "r = PNone \<or> (\<exists>c. py_gt0 fl r = Inr c)"
  using assms
  by (auto simp: get_broker_rate_per_mile_def exn_bind_eq_Inr py_gt0_def split: if_splits)



lemma none_or_le0_rate_like: "rate_like v \<Longrightarrow> none_or_le0 fl v = Inr (unusable fl v)"
  by (cases v) (auto simp: rate_like_def none_or_le0_def unusable_def py_le0_def)

lemma process_loop_append:
  "process_loop fl post tok (xs @ ys) acc w =
     (case process_loop fl post tok xs acc w of
        (Inl e, w') \<Rightarrow> (Inl e, w')
      | (Inr acc', w') \<Rightarrow> process_loop fl post tok ys acc' w')"
  by (induction xs arbitrary: acc w) (auto split: prod.splits sum.splits option.splits)

lemma process_match_skip:
  assumes "match_header match = Inr (match_id, mai, origin, dp)"
    and "\<not> truthy fl origin \<or> \<not> truthy fl dp"
  shows "process_match fl post tok match w = (Inr None, w)"
  using assms by (auto simp: process_match_def)

lemma process_loop_skip:
  assumes "\<And>w. process_match fl post tok match w = (Inr None, w)"
  shows "process_loop fl post tok (before @ match # after) acc w =
         process_loop fl post tok (before @ after) acc w"
  by (simp add: process_loop_append assms split: prod.splits sum.splits)

lemma match_header_dict:
  assumes "py_get match ''matchingAssetInfo'' (PDict []) = Inr (PDict a)"
    and "py_get (PDict a) ''destination'' (PDict []) = Inr (PDict dst)"
  shows "\<exists>match_id. match_header match =
           Inr (match_id, PDict a,
                (case map_of a ''origin'' of None \<Rightarrow> PDict [] | Some v \<Rightarrow> v),
                (case map_of dst ''place'' of None \<Rightarrow> PDict [] | Some v \<Rightarrow> v))"
  using assms by (cases match) (auto simp: match_header_def)

lemma process_match_None:
  "process_match fl post tok match w = (Inr None, w') \<Longrightarrow> skipped fl match \<and> w' = w"
  by (auto simp: process_match_def skipped_def split: sum.splits prod.splits if_splits)

lemma map_of_alist_set:
  "map_of (alist_set k v kvs) k' = (if k' = k then Some v else map_of kvs k')"
  by (induction kvs) auto

lemma attach_market_data_keeps:
  assumes "attach_market_data fl processed_match market_data rate_data = Inr entry"
    and "k \<noteq> ''marketData''"
  shows "map_of entry k = map_of processed_match k"
  using assms
  by (auto simp: attach_market_data_def exn_bind_eq_Inr map_of_alist_set split: if_splits)

lemma build_processed_match_id:
  assumes "build_processed_match match_id origin dp code equipment match comparison pay = Inr pm"
  shows "map_of pm ''matchId'' = Some match_id"
  using assms by (auto simp: build_processed_match_def exn_bind_eq_Inr)

lemma enrich_match_id:
  assumes "enrich_match fl post tok match match_id mai origin dp w = (Inr entry, w')"
  shows "py_get entry ''matchId'' PNone = Inr match_id"
  using assms
  by (auto simp: enrich_match_def exn_bind_eq_Inr attach_market_data_keeps
      build_processed_match_id split: sum.splits prod.splits)

lemma process_match_Some:
  assumes "process_match fl post tok match w = (Inr (Some entry), w')"
  shows "\<not> skipped fl match \<and> py_get entry ''matchId'' PNone = py_get match ''matchId'' (PStr [])"
proof -
  from assms obtain match_id mai origin dp where
    h: "match_header match = Inr (match_id, mai, origin, dp)"
    by (auto simp: process_match_def split: sum.splits)
  from h have i: "py_get match ''matchId'' (PStr []) = Inr match_id"
    by (auto simp: match_header_def exn_bind_eq_Inr)
  from assms h have t: "truthy fl origin" "truthy fl dp"
    by (auto simp: process_match_def split: if_splits)
  with assms h have "enrich_match fl post tok match match_id mai origin dp w = (Inr entry, w')"
    by (auto simp: process_match_def split: sum.splits prod.splits)
  then have "py_get entry ''matchId'' PNone = Inr match_id" by (rule enrich_match_id)
  with h i t show ?thesis by (simp add: skipped_def)
qed

lemma process_loop_entries:
  assumes "process_loop fl post tok matches acc w = (Inr processed, w')"
  shows "\<exists>new. processed = acc @ new \<and>
     list_all2 (\<lambda>match entry.
        (\<exists>w1 w2. process_match fl post tok match w1 = (Inr (Some entry), w2)) \<and>
        py_get entry ''matchId'' PNone = py_get match ''matchId'' (PStr []))
       (filter (\<lambda>m. \<not> skipped fl m) matches) new"
  using assms
proof (induction matches arbitrary: acc w)
  case Nil
  then show ?case by simp
next
  case (Cons match matches)
  obtain r w1 where pm: "process_match fl post tok match w = (r, w1)" by (cases "process_match fl post tok match w")
  show ?case
  proof (cases r)
    case (Inl e)
    with pm Cons.prems show ?thesis by simp
  next
    case (Inr opt)
    show ?thesis
    proof (cases opt)
      case None
      with Inr pm have "process_match fl post tok match w = (Inr None, w1)" by simp
      then have s: "skipped fl match" and "w1 = w" by (auto dest: process_match_None)
      from None Inr pm Cons.prems have "process_loop fl post tok matches acc w1 = (Inr processed, w')"
        by simp
      from Cons.IH [OF this] s show ?thesis by simp
    next
      case (Some entry)
      with Inr pm have e: "process_match fl post tok match w = (Inr (Some entry), w1)" by simp
      from process_match_Some [OF e] have s: "\<not> skipped fl match"
        and i: "py_get entry ''matchId'' PNone = py_get match ''matchId'' (PStr [])" by auto
      from e Cons.prems have "process_loop fl post tok matches (acc @ [entry]) w1 = (Inr processed, w')"
        by simp
      from Cons.IH [OF this] obtain new where
        n: "processed = (acc @ [entry]) @ new" and
        l: "list_all2 (\<lambda>match entry.
        (\<exists>w1 w2. process_match fl post tok match w1 = (Inr (Some entry), w2)) \<and>
        py_get entry ''matchId'' PNone = py_get match ''matchId'' (PStr []))
       (filter (\<lambda>m. \<not> skipped fl m) matches) new" by blast
      from e i l s have "list_all2 (\<lambda>match entry.
        (\<exists>w1 w2. process_match fl post tok match w1 = (Inr (Some entry), w2)) \<and>
        py_get entry ''matchId'' PNone = py_get match ''matchId'' (PStr []))
       (filter (\<lambda>m. \<not> skipped fl m) (match # matches)) (entry # new)" by auto
      with n show ?thesis by auto
    qed
  qed
qed

lemma process_loads_result:
  assumes "process_loads_and_compare_rates fl post loads_data tok w = (Inr result, w')"
  shows "\<exists>match_counts matches processed.
           py_get loads_data ''matchCounts'' (PDict []) = Inr match_counts \<and>
           batch_matches loads_data = Inr matches \<and>
           process_loop fl post tok matches [] w = (Inr processed, w') \<and>
           result = PDict [(''matchCounts'', match_counts), (''processedMatches'', PList processed)]"
  using assms
  by (auto simp: process_loads_and_compare_rates_def exn_bind_eq_Inr
           split: sum.splits prod.splits)

lemmas run_defs = process_loads_and_compare_rates_def batch_matches_def process_match_def
  match_header_def enrich_match_def get_broker_rate_per_mile_def calculate_driver_pay_def
  get_total_load_amount_def trip_miles_def private_rate_usd_def load_board_rate_usd_def
  py_gt0_def py_le0_def py_mul_def and_then_def pay_record_def call_rateview_api_def
  lookup_payload_def lookup_request_def offline_def parse_rate_response_def error_dict_def
  get_rate_comparison_def or_else_def none_or_le0_def build_processed_match_def
  attach_market_data_def map_equipment_code_to_rateview_def van_codes_def sample_match_def
  sample_batch_def exact_def exact_round2_def Let_def

lemma sample_run:
  "\<exists>result w'. process_loads_and_compare_rates exact offline sample_batch (PStr ''t'') () =
     (Inr result, w')"
  by (simp add: run_defs)

section \<open>Equipment mapper: claim C6\<close>

text \<open>
  C6: on every string the equipment mapper returns a value, and that value is the two-set
  lookup: \<open>VAN\<close> for a van code, \<open>REEFER\<close> for a reefer code, \<open>FLATBED\<close> for every other string
  (a flatbed code, the empty string, an unknown code alike).
\<close>

theorem map_equipment_two_set_lookup:
  "map_equipment_code_to_rateview (PStr code :: 'f pyval) = two_set_lookup code
   \<and> (code \<in> set van_codes \<longrightarrow> map_equipment_code_to_rateview (PStr code :: 'f pyval) = ''VAN'')
   \<and> (code \<in> set reefer_codes \<longrightarrow> map_equipment_code_to_rateview (PStr code :: 'f pyval) = ''REEFER'')
   \<and> (code \<notin> set van_codes \<and> code \<notin> set reefer_codes
        \<longrightarrow> map_equipment_code_to_rateview (PStr code :: 'f pyval) = ''FLATBED'')"
  unfolding map_equipment_code_to_rateview_def two_set_lookup_def
  by (auto simp: van_codes_def reefer_codes_def)

theorem map_equipment_two_set_lookup_witness:
  "map_equipment_code_to_rateview (PStr ''V'' :: real pyval) = ''VAN''
   \<and> map_equipment_code_to_rateview (PStr ''RZ'' :: real pyval) = ''REEFER''
   \<and> map_equipment_code_to_rateview (PStr ''F'' :: real pyval) = ''FLATBED''
   \<and> map_equipment_code_to_rateview (PStr [] :: real pyval) = ''FLATBED''
   \<and> map_equipment_code_to_rateview (PStr ''v'' :: real pyval) = ''FLATBED''
   \<and> two_set_lookup ''XX'' = ''FLATBED''"
  using map_equipment_two_set_lookup [where 'f = real and code = "''V''"]
    map_equipment_two_set_lookup [where 'f = real and code = "''RZ''"]
    map_equipment_two_set_lookup [where 'f = real and code = "''F''"]
    map_equipment_two_set_lookup [where 'f = real and code = "[]"]
    map_equipment_two_set_lookup [where 'f = real and code = "''v''"]
    map_equipment_two_set_lookup [where 'f = real and code = "''XX''"]
  by (simp add: van_codes_def reefer_codes_def two_set_lookup_def)

section \<open>Broker-rate extractor: claim C4\<close>



section \<open>Driver pay: claim C3\<close>



section \<open>Rate comparison: claims C2 and C5\<close>



text \<open>
  C5: when at least one of the two rates is absent or not positive, each such side is
  reported as the sentinel \<open>Not Available\<close> while a present positive side keeps its value, the
  difference is the sentinel \<open>N/A\<close> and the label is \<open>Rate comparison not possible\<close>.
\<close>

theorem get_rate_comparison_unusable:
  assumes "rate_like load_rate" and "rate_like market_rate"
    and "unusable fl load_rate \<or> unusable fl market_rate"
  shows "get_rate_comparison fl load_rate market_rate =
     Inr (PDict [
       (''broker_rate_per_mile'',
          if unusable fl load_rate then PStr ''Not Available'' else load_rate),
       (''market_rate_per_mile'',
          if unusable fl market_rate then PStr ''Not Available'' else market_rate),
       (''difference_percentage'', PStr ''N/A''),
       (''comparison'', PStr ''Rate comparison not possible'')])"
  using assms
  by (auto simp: get_rate_comparison_def or_else_def none_or_le0_rate_like)

theorem get_rate_comparison_unusable_witness:
  "get_rate_comparison exact PNone (PFloat 2) =
     Inr (PDict [(''broker_rate_per_mile'', PStr ''Not Available''),
       (''market_rate_per_mile'', PFloat 2), (''difference_percentage'', PStr ''N/A''),
       (''comparison'', PStr ''Rate comparison not possible'')])
   \<and> get_rate_comparison exact (PInt 0) (PFloat 2) =
     Inr (PDict [(''broker_rate_per_mile'', PStr ''Not Available''),
       (''market_rate_per_mile'', PFloat 2), (''difference_percentage'', PStr ''N/A''),
       (''comparison'', PStr ''Rate comparison not possible'')])
   \<and> get_rate_comparison exact (PFloat 2) (PFloat (- 1)) =
     Inr (PDict [(''broker_rate_per_mile'', PFloat 2),
       (''market_rate_per_mile'', PStr ''Not Available''), (''difference_percentage'', PStr ''N/A''),
       (''comparison'', PStr ''Rate comparison not possible'')])"
  using get_rate_comparison_unusable [of PNone "PFloat 2" exact]
    get_rate_comparison_unusable [of "PInt 0" "PFloat 2" exact]
    get_rate_comparison_unusable [of "PFloat 2" "PFloat (- 1)" exact]
  by (simp add: rate_like_def unusable_def exact_def)

section \<open>Rate service client: claim C9\<close>

text \<open>
  C9: for an origin and a destination that are mappings, the client sends one request and
  never raises. A transport failure gives \<open>{error: "Exception: <message>"}\<close>; an answer with
  status 200 or 201 gives the parsed body (or the same \<open>Exception\<close> record when the body does
  not parse); an answer with any other status gives
  \<open>{error: "API Error: <status>", detail: <body>}\<close>.
\<close>

theorem call_rateview_api_outcomes:
  assumes "is_dict origin" and "is_dict destination"
  shows "\<exists>body. lookup_payload origin destination equipment = Inr body \<and>
    (\<forall>e w'. post (lookup_request body tok) w = (Inl e, w') \<longrightarrow>
        call_rateview_api post origin destination equipment tok w =
          (Inr (error_dict (''Exception: '' @ str_exn e)), w')) \<and>
    (\<forall>response w'. post (lookup_request body tok) w = (Inr response, w') \<longrightarrow>
        (status_code response \<in> {200, 201} \<longrightarrow>
           (\<forall>parsed. resp_json response = Inr parsed \<longrightarrow>
              call_rateview_api post origin destination equipment tok w = (Inr parsed, w')) \<and>
           (\<forall>e. resp_json response = Inl e \<longrightarrow>
              call_rateview_api post origin destination equipment tok w =
                (Inr (error_dict (''Exception: '' @ str_exn e)), w'))) \<and>
        (status_code response \<notin> {200, 201} \<longrightarrow>
           call_rateview_api post origin destination equipment tok w =
             (Inr (PDict [(''error'', PStr (''API Error: '' @ dec_int (status_code response))),
                          (''detail'', PStr (resp_text response))]), w'))) \<and>
    (\<exists>v w'. call_rateview_api post origin destination equipment tok w = (Inr v, w'))"
proof -
  from assms obtain o1 d1 where od: "origin = PDict o1" "destination = PDict d1"
    by (cases origin; cases destination) auto
  then obtain body where b: "lookup_payload origin destination equipment = Inr body"
    by (simp add: lookup_payload_def)
  have "\<exists>v w'. call_rateview_api post origin destination equipment tok w = (Inr v, w')"
    using b by (cases "post (lookup_request body tok) w")
      (auto simp: call_rateview_api_def split: sum.splits)
  with b show ?thesis
    by (auto simp: call_rateview_api_def)
qed

theorem call_rateview_api_outcomes_witness:
  "call_rateview_api offline (PDict [] :: real pyval) (PDict []) ''VAN'' (PStr ''t'') () =
     (Inr (PDict [(''error'', PStr ''Exception: connection refused'')]), ())
   \<and> call_rateview_api
       (answering \<lparr>status_code = 201, resp_text = ''{}'', resp_json = Inr (PDict [])\<rparr>)
       (PDict [] :: real pyval) (PDict []) ''VAN'' (PStr ''t'') () = (Inr (PDict []), ())
   \<and> call_rateview_api
       (answering \<lparr>status_code = 302, resp_text = ''moved'', resp_json = Inr (PDict [])\<rparr>)
       (PDict [] :: real pyval) (PDict []) ''VAN'' (PStr ''t'') () =
     (Inr (PDict [(''error'', PStr ''API Error: 302''), (''detail'', PStr ''moved'')]), ())"
  using call_rateview_api_outcomes [where origin = "PDict [] :: real pyval" and destination = "PDict []"
      and equipment = "''VAN''" and post = offline and tok = "PStr ''t''" and w = "()"]
    call_rateview_api_outcomes [where origin = "PDict [] :: real pyval" and destination = "PDict []"
      and equipment = "''VAN''" and tok = "PStr ''t''" and w = "()" and post =
        "answering \<lparr>status_code = 201, resp_text = ''{}'', resp_json = Inr (PDict [])\<rparr>"]
    call_rateview_api_outcomes [where origin = "PDict [] :: real pyval" and destination = "PDict []"
      and equipment = "''VAN''" and tok = "PStr ''t''" and w = "()" and post =
        "answering \<lparr>status_code = 302, resp_text = ''moved'', resp_json = Inr (PDict [])\<rparr>"]
  by (simp add: offline_def answering_def lookup_payload_def error_dict_def dec_int_def
      dec_nat.simps digit_char_def)

section \<open>Batch orchestration: claims C7, C8 and C10\<close>

text \<open>
  C7: a match whose asset info and destination are mappings when they are present, and whose
  origin or destination place is missing, gives no entry and no error and sends no request;
  the loop goes on as if the match were not in the list; and the \<open>matchCounts\<close> of every
  output is the \<open>matchCounts\<close> of the input.
\<close>

theorem silent_drop_keeps_match_counts:
  assumes "py_get match ''matchingAssetInfo'' (PDict []) = Inr (PDict a)"
    and "py_get (PDict a) ''destination'' (PDict []) = Inr (PDict dst)"
    and "map_of a ''origin'' = None \<or> map_of dst ''place'' = None"
  shows "process_match fl post tok match w = (Inr None, w)
    \<and> process_loop fl post tok (before @ match # after) processed w =
        process_loop fl post tok (before @ after) processed w
    \<and> (\<forall>result w'. process_loads_and_compare_rates fl post loads_data tok w = (Inr result, w')
          \<longrightarrow> py_get result ''matchCounts'' PNone = py_get loads_data ''matchCounts'' (PDict []))"
proof -
  from match_header_dict [OF assms(1,2)] obtain match_id where
    h: "match_header match = Inr (match_id, PDict a,
                (case map_of a ''origin'' of None \<Rightarrow> PDict [] | Some v \<Rightarrow> v),
                (case map_of dst ''place'' of None \<Rightarrow> PDict [] | Some v \<Rightarrow> v))" by blast
  have f: "\<not> truthy fl (case map_of a ''origin'' of None \<Rightarrow> PDict [] | Some v \<Rightarrow> v) \<or>
           \<not> truthy fl (case map_of dst ''place'' of None \<Rightarrow> PDict [] | Some v \<Rightarrow> v)"
    using assms(3) by auto
  have s: "\<And>w. process_match fl post tok match w = (Inr None, w)"
    by (rule process_match_skip [OF h f])
  have c: "\<forall>result w'. process_loads_and_compare_rates fl post loads_data tok w = (Inr result, w')
          \<longrightarrow> py_get result ''matchCounts'' PNone = py_get loads_data ''matchCounts'' (PDict [])"
    by (auto dest!: process_loads_result)
  from s process_loop_skip [of fl post tok match, OF s] c show ?thesis by blast
qed

theorem silent_drop_keeps_match_counts_witness:
  "process_match exact offline (PStr ''t'') (PDict [(''matchId'', PStr ''b'')]) () = (Inr None, ())
   \<and> process_loop exact offline (PStr ''t'')
        [sample_match ''a'', PDict [(''matchId'', PStr ''b'')], sample_match ''c''] [] () =
      process_loop exact offline (PStr ''t'') [sample_match ''a'', sample_match ''c''] [] ()
   \<and> (\<exists>result w'. process_loads_and_compare_rates exact offline sample_batch (PStr ''t'') () =
          (Inr result, w')
        \<and> py_get result ''matchCounts'' PNone = Inr (PDict [(''total'', PInt 3)]))"
proof -
  from sample_run obtain result w' where
    r: "process_loads_and_compare_rates exact offline sample_batch (PStr ''t'') () = (Inr result, w')"
    by blast
  have "py_get sample_batch ''matchCounts'' (PDict []) = Inr (PDict [(''total'', PInt 3)])"
    by (simp add: sample_batch_def)
  with r silent_drop_keeps_match_counts [where match = "PDict [(''matchId'', PStr ''b'')]"
      and a = "[]" and dst = "[]" and fl = exact and post = offline and tok = "PStr ''t''" and w = "()"
      and before = "[sample_match ''a'']" and after = "[sample_match ''c'']" and processed = "[]"
      and loads_data = sample_batch]
  show ?thesis by auto
qed

text \<open>
  C7 as stated covers every batch. A match with no origin whose destination is null is not
  dropped: line 184 calls \<open>.get\<close> on \<open>None\<close> before the test of line 187, and the exception
  ends the whole batch.
\<close>

theorem null_destination_aborts_batch_counterexample:
  "process_loads_and_compare_rates exact offline null_destination_batch (PStr ''t'') () =
     (Inl (AttributeError (sq @ ''NoneType'' @ sq @ '' object has no attribute ''
                           @ sq @ ''get'' @ sq)), ())"
  by (simp add: process_loads_and_compare_rates_def batch_matches_def process_match_def
      match_header_def null_destination_batch_def no_attr_def)

text \<open>
  C8: when the batch is processed without error, \<open>processedMatches\<close> lists the matches that
  are not skipped in their input order: entry by entry it is what \<open>process_match\<close> yields
  for that match alone, and it carries the match id of that match.
\<close>

theorem processed_matches_in_input_order:
  assumes "batch_matches loads_data = Inr matches"
    and "process_loads_and_compare_rates fl post loads_data tok w = (Inr result, w')"
  shows "\<exists>processed. py_get result ''processedMatches'' PNone = Inr (PList processed) \<and>
     list_all2 (\<lambda>match entry.
        (\<exists>w1 w2. process_match fl post tok match w1 = (Inr (Some entry), w2)) \<and>
        py_get entry ''matchId'' PNone = py_get match ''matchId'' (PStr []))
       (filter (\<lambda>m. \<not> skipped fl m) matches) processed"
proof -
  from process_loads_result [OF assms(2)] assms(1) obtain match_counts processed where
    l: "process_loop fl post tok matches [] w = (Inr processed, w')" and
    r: "result = PDict [(''matchCounts'', match_counts), (''processedMatches'', PList processed)]"
    by auto
  from process_loop_entries [OF l] r show ?thesis by simp
qed

theorem processed_matches_in_input_order_witness:
  "\<exists>result w' processed.
      process_loads_and_compare_rates exact offline sample_batch (PStr ''t'') () = (Inr result, w')
      \<and> py_get result ''processedMatches'' PNone = Inr (PList processed)
      \<and> map (\<lambda>entry. py_get entry ''matchId'' PNone) processed = [Inr (PStr ''a''), Inr (PStr ''c'')]"
proof -
  from sample_run obtain result w' where
    r: "process_loads_and_compare_rates exact offline sample_batch (PStr ''t'') () = (Inr result, w')"
    by blast
  have b: "batch_matches sample_batch =
      Inr [sample_match ''a'', PDict [(''matchId'', PStr ''b'')], sample_match ''c'']"
    by (simp add: sample_batch_def batch_matches_def)
  have f: "filter (\<lambda>m. \<not> skipped exact m)
      [sample_match ''a'', PDict [(''matchId'', PStr ''b'')], sample_match ''c''] =
      [sample_match ''a'', sample_match ''c'']"
    by (simp add: skipped_def match_header_def sample_match_def)
  from processed_matches_in_input_order [OF b r] obtain processed where
    p: "py_get result ''processedMatches'' PNone = Inr (PList processed)" and
    l: "list_all2 (\<lambda>match entry.
        (\<exists>w1 w2. process_match exact offline (PStr ''t'') match w1 = (Inr (Some entry), w2)) \<and>
        py_get entry ''matchId'' PNone = py_get match ''matchId'' (PStr []))
       [sample_match ''a'', sample_match ''c''] processed"
    unfolding f by blast
  from l have "map (\<lambda>entry. py_get entry ''matchId'' PNone) processed =
      [Inr (PStr ''a''), Inr (PStr ''c'')]"
    by (auto simp: list_all2_Cons1 sample_match_def)
  with r p show ?thesis
    by (intro exI [of _ result] exI [of _ w'] exI [of _ processed]) simp
qed

text \<open>
  C10: a match whose asset info and destination are mappings when they are present, and whose
  origin, or whose destination place, is present but is the empty mapping, is dropped like
  one where it is missing: no entry, no error, no request, and the loop goes on as if the
  match were not in the list.
\<close>

theorem empty_place_is_dropped:
  assumes "py_get match ''matchingAssetInfo'' (PDict []) = Inr (PDict a)"
    and "py_get (PDict a) ''destination'' (PDict []) = Inr (PDict dst)"
    and "map_of a ''origin'' = Some (PDict []) \<or> map_of dst ''place'' = Some (PDict [])"
  shows "process_match fl post tok match w = (Inr None, w)
    \<and> process_loop fl post tok (before @ match # after) processed w =
        process_loop fl post tok (before @ after) processed w"
proof -
  from match_header_dict [OF assms(1,2)] obtain match_id where
    h: "match_header match = Inr (match_id, PDict a,
                (case map_of a ''origin'' of None \<Rightarrow> PDict [] | Some v \<Rightarrow> v),
                (case map_of dst ''place'' of None \<Rightarrow> PDict [] | Some v \<Rightarrow> v))" by blast
  have f: "\<not> truthy fl (case map_of a ''origin'' of None \<Rightarrow> PDict [] | Some v \<Rightarrow> v) \<or>
           \<not> truthy fl (case map_of dst ''place'' of None \<Rightarrow> PDict [] | Some v \<Rightarrow> v)"
    using assms(3) by auto
  have s: "\<And>w. process_match fl post tok match w = (Inr None, w)"
    by (rule process_match_skip [OF h f])
  from s process_loop_skip [of fl post tok match, OF s] show ?thesis by blast
qed

theorem empty_place_is_dropped_witness:
  "process_match exact offline (PStr ''t'')
      (PDict [(''matchId'', PStr ''b''), (''matchingAssetInfo'', PDict [(''origin'', PDict [])])]) ()
     = (Inr None, ())
   \<and> process_match exact offline (PStr ''t'')
      (PDict [(''matchingAssetInfo'',
         PDict [(''origin'', PDict [(''city'', PStr ''Joliet'')]),
                (''destination'', PDict [(''place'', PDict [])])])]) ()
     = (Inr None, ())"
  using empty_place_is_dropped [where match =
        "PDict [(''matchId'', PStr ''b''), (''matchingAssetInfo'', PDict [(''origin'', PDict [])])]"
      and a = "[(''origin'', PDict [])]" and dst = "[]" and fl = exact and post = offline and tok = "PStr ''t''"
      and w = "()"]
    empty_place_is_dropped [where match =
        "PDict [(''matchingAssetInfo'',
           PDict [(''origin'', PDict [(''city'', PStr ''Joliet'')]),
                  (''destination'', PDict [(''place'', PDict [])])])]"
      and a = "[(''origin'', PDict [(''city'', PStr ''Joliet'')]),
                (''destination'', PDict [(''place'', PDict [])])]"
      and dst = "[(''place'', PDict [])]" and fl = exact and post = offline and tok = "PStr ''t''" and w = "()"]
  by simp

text \<open>
  C10 as stated covers every batch. A match with an empty origin whose destination is null is
  not dropped: line 184 raises before the emptiness test, and the exception ends the whole
  batch.
\<close>

theorem empty_origin_null_destination_counterexample:
  "process_loads_and_compare_rates exact offline empty_origin_null_destination_batch
       (PStr ''t'') () =
     (Inl (AttributeError (sq @ ''NoneType'' @ sq @ '' object has no attribute ''
                           @ sq @ ''get'' @ sq)), ())"
  by (simp add: process_loads_and_compare_rates_def batch_matches_def process_match_def
      match_header_def empty_origin_null_destination_batch_def no_attr_def)

section \<open>Job boundary: claim C1\<close>

text \<open>
  C1: for every job that has an \<open>input\<close> entry the handler returns a mapping and raises
  nothing. An input that is not a mapping gives \<open>Input must be a dictionary\<close>; then a falsy
  \<open>freight_data\<close> gives \<open>Missing required parameter: freight_data\<close>; then a falsy
  \<open>access_token\<close> gives \<open>Missing required parameter: access_token\<close>; then an exception raised
  by the processing gives \<open>Processing error: <message>\<close>, and otherwise the result of the
  processing is returned.
\<close>

theorem handler_returns_mapping:
  assumes "py_index job ''input'' = Inr job_input"
  shows "(\<exists>d w'. handler fl post job w = (Inr (PDict d), w'))
    \<and> (\<not> is_dict job_input \<longrightarrow>
          handler fl post job w = (Inr (error_dict ''Input must be a dictionary''), w))
    \<and> (is_dict job_input \<longrightarrow>
        py_get job_input ''freight_data'' PNone = Inr freight_data \<longrightarrow>
        py_get job_input ''access_token'' PNone = Inr access_token \<longrightarrow>
          (\<not> truthy fl freight_data \<longrightarrow>
             handler fl post job w =
               (Inr (error_dict ''Missing required parameter: freight_data''), w))
        \<and> (truthy fl freight_data \<longrightarrow> \<not> truthy fl access_token \<longrightarrow>
             handler fl post job w =
               (Inr (error_dict ''Missing required parameter: access_token''), w))
        \<and> (truthy fl freight_data \<longrightarrow> truthy fl access_token \<longrightarrow>
             (\<forall>e w'. process_freight_data fl post freight_data access_token w = (Inl e, w') \<longrightarrow>
                handler fl post job w =
                  (Inr (error_dict (''Processing error: '' @ str_exn e)), w'))
           \<and> (\<forall>result w'. process_freight_data fl post freight_data access_token w = (Inr result, w')
                \<longrightarrow> handler fl post job w = (Inr result, w'))))"
proof -
  have m: "\<exists>d w'. handler fl post job w = (Inr (PDict d), w')"
  proof (cases job_input)
    case (PDict i)
    obtain r w1 where p: "process_freight_data fl post
        (case map_of i ''freight_data'' of None \<Rightarrow> PNone | Some v \<Rightarrow> v)
        (case map_of i ''access_token'' of None \<Rightarrow> PNone | Some v \<Rightarrow> v) w = (r, w1)"
      by (cases "process_freight_data fl post
        (case map_of i ''freight_data'' of None \<Rightarrow> PNone | Some v \<Rightarrow> v)
        (case map_of i ''access_token'' of None \<Rightarrow> PNone | Some v \<Rightarrow> v) w")
    show ?thesis
    proof (cases r)
      case (Inl e)
      with p PDict assms show ?thesis by (auto simp: handler_def error_dict_def)
    next
      case (Inr result)
      with p have "\<exists>d. result = PDict d"
        by (auto simp: process_freight_data_def dest!: process_loads_result)
      with Inr p PDict assms show ?thesis by (auto simp: handler_def error_dict_def)
    qed
  qed (use assms in \<open>auto simp: handler_def error_dict_def\<close>)
  have r: "\<not> is_dict job_input \<longrightarrow>
          handler fl post job w = (Inr (error_dict ''Input must be a dictionary''), w)"
    using assms by (simp add: handler_def)
  have v: "is_dict job_input \<longrightarrow>
        py_get job_input ''freight_data'' PNone = Inr freight_data \<longrightarrow>
        py_get job_input ''access_token'' PNone = Inr access_token \<longrightarrow>
          (\<not> truthy fl freight_data \<longrightarrow>
             handler fl post job w =
               (Inr (error_dict ''Missing required parameter: freight_data''), w))
        \<and> (truthy fl freight_data \<longrightarrow> \<not> truthy fl access_token \<longrightarrow>
             handler fl post job w =
               (Inr (error_dict ''Missing required parameter: access_token''), w))
        \<and> (truthy fl freight_data \<longrightarrow> truthy fl access_token \<longrightarrow>
             (\<forall>e w'. process_freight_data fl post freight_data access_token w = (Inl e, w') \<longrightarrow>
                handler fl post job w =
                  (Inr (error_dict (''Processing error: '' @ str_exn e)), w'))
           \<and> (\<forall>result w'. process_freight_data fl post freight_data access_token w = (Inr result, w')
                \<longrightarrow> handler fl post job w = (Inr result, w')))"
    using assms by (simp add: handler_def)
  from m r v show ?thesis by blast
qed

theorem handler_returns_mapping_witness:
  "handler exact offline (PDict [(''input'', PStr ''x'')]) () =
     (Inr (PDict [(''error'', PStr ''Input must be a dictionary'')]), ())
   \<and> handler exact offline (PDict [(''input'', PDict [(''access_token'', PStr ''t'')])]) () =
     (Inr (PDict [(''error'', PStr ''Missing required parameter: freight_data'')]), ())
   \<and> handler exact offline (PDict [(''input'', PDict [(''freight_data'', sample_batch)])]) () =
     (Inr (PDict [(''error'', PStr ''Missing required parameter: access_token'')]), ())
   \<and> handler exact offline
       (PDict [(''input'', PDict [(''freight_data'', PInt 7), (''access_token'', PStr ''t'')])]) () =
     (Inr (PDict [(''error'', PStr (''Processing error: '' @ sq @ ''int'' @ sq
              @ '' object has no attribute '' @ sq @ ''get'' @ sq))]), ())
   \<and> handler exact offline
       (PDict [(''input'', PDict [(''freight_data'', PDict [(''matchCounts'', PInt 0)]),
                                  (''access_token'', PStr ''t'')])]) () =
     (Inr (PDict [(''matchCounts'', PInt 0), (''processedMatches'', PList [])]), ())"
  using handler_returns_mapping [where job = "PDict [(''input'', PStr ''x'')]"
      and job_input = "PStr ''x''" and fl = exact and post = offline and w = "()"]
    handler_returns_mapping [where job = "PDict [(''input'', PDict [(''access_token'', PStr ''t'')])]"
      and job_input = "PDict [(''access_token'', PStr ''t'')]" and freight_data = PNone
      and access_token = "PStr ''t''" and fl = exact and post = offline and w = "()"]
    handler_returns_mapping [where job = "PDict [(''input'', PDict [(''freight_data'', sample_batch)])]"
      and job_input = "PDict [(''freight_data'', sample_batch)]" and freight_data = sample_batch
      and access_token = PNone and fl = exact and post = offline and w = "()"]
    handler_returns_mapping [where job =
        "PDict [(''input'', PDict [(''freight_data'', PInt 7), (''access_token'', PStr ''t'')])]"
      and job_input = "PDict [(''freight_data'', PInt 7), (''access_token'', PStr ''t'')]"
      and freight_data = "PInt 7" and access_token = "PStr ''t''" and fl = exact and post = offline and w = "()"]
    handler_returns_mapping [where job =
        "PDict [(''input'', PDict [(''freight_data'', PDict [(''matchCounts'', PInt 0)]),
                                   (''access_token'', PStr ''t'')])]"
      and job_input = "PDict [(''freight_data'', PDict [(''matchCounts'', PInt 0)]),
                              (''access_token'', PStr ''t'')]"
      and freight_data = "PDict [(''matchCounts'', PInt 0)]" and access_token = "PStr ''t''"
      and fl = exact and post = offline and w = "()"]
  by (simp add: error_dict_def sample_batch_def process_freight_data_def
      process_loads_and_compare_rates_def batch_matches_def no_attr_def)

text \<open>
  C1 as stated covers every job value. A job without an \<open>input\<close> entry makes
  \<open>job["input"]\<close> raise \<open>KeyError\<close> before any check and outside the \<open>try\<close>.
\<close>

theorem handler_missing_input_counterexample:
  "handler exact offline (PDict []) () = (Inl (KeyError (sq @ ''input'' @ sq)), ())"
  by (simp add: handler_def)

end
